theory Spec2Isabelle
  imports Complex_Main "HOL-Library.Sublist" "HOL-Library.Log_Nat"
begin

section \<open>Data model\<close>

text \<open>
  The markets come from a parsed JSON document, so a property of a market can be absent
  (reading it gives \<^verbatim>\<open>undefined\<close>), \<^verbatim>\<open>null\<close>, or a value. Both ways of missing are
  kept apart because JavaScript coerces them differently in comparisons.

  Strings are \<^typ>\<open>string\<close>; a character stands for one code unit of ASCII text, where a
  code unit, a byte and a character coincide. The keyword table is ASCII; for queries,
  titles, descriptions and the input box, the statements that depend on it say so
  (\<open>isAscii\<close> below). Numbers are the finite doubles, represented by the rational
  number each of them denotes: a comparison of two finite doubles is the comparison of
  their values, and the sign of a difference of two finite doubles is the sign of the
  exact difference.
\<close>

datatype 'a field = Undefined | Null | Val 'a

text \<open>
  What the code can throw: a \<^verbatim>\<open>TypeError\<close> (a property read on \<^verbatim>\<open>undefined\<close> or
  \<^verbatim>\<open>null\<close>, a rejected \<^verbatim>\<open>fetch\<close>), the \<^verbatim>\<open>SyntaxError\<close> of a body that is not JSON, and
  an \<^verbatim>\<open>Error\<close> made with \<^verbatim>\<open>new Error(message)\<close>.
\<close>

datatype error = TypeError | SyntaxError | Error string

record outcome =
  name :: "string field"
  price :: "rat field"

record market =
  id_market :: "string field"
  title :: "string field"
  description :: "string field"
  outcomes :: "outcome list"
  volume24h :: "rat field"
  volumeTotal :: "rat field"
  liquidity :: "rat field"
  favoredOutcome :: "string field"
  endTime :: "string field"

text \<open>The global \<^verbatim>\<open>polymarketData\<close>: the parsed document, whose \<^verbatim>\<open>markets\<close> property may be absent.\<close>

record polymarket_data =
  markets :: "market list option"

section \<open>JavaScript primitives used by the scorer\<close>

text \<open>
  \<^verbatim>\<open>String.prototype.toLowerCase\<close> on ASCII text: the letters A to Z move to a to z.
  JavaScript also lowercases letters outside ASCII, which this function leaves alone.
\<close>

definition lower_char :: "char \<Rightarrow> char" where
  "lower_char c =
     (case map_of (zip ''ABCDEFGHIJKLMNOPQRSTUVWXYZ'' ''abcdefghijklmnopqrstuvwxyz'') c of
        None \<Rightarrow> c
      | Some l \<Rightarrow> l)"

definition toLowerCase :: "string \<Rightarrow> string" where
  "toLowerCase s = map lower_char s"

text \<open>
  \<^verbatim>\<open>s.split(' ')\<close>: the pieces between single spaces; the empty string gives one empty
  piece and two adjacent spaces give an empty piece between them.
\<close>

fun split :: "char \<Rightarrow> string \<Rightarrow> string list" where
  "split sep [] = [[]]"
| "split sep (c # cs) =
     (if c = sep then [] # split sep cs
      else (case split sep cs of [] \<Rightarrow> [[c]] | w # ws \<Rightarrow> (c # w) # ws))"

text \<open>\<^verbatim>\<open>s.includes(w)\<close>: \<open>w\<close> occurs in \<open>s\<close> as a contiguous piece.\<close>

fun includes_str :: "string \<Rightarrow> string \<Rightarrow> bool" where
  "includes_str [] w = (w = [])"
| "includes_str (c # cs) w = (prefix w (c # cs) \<or> includes_str cs w)"

text \<open>
  \<^verbatim>\<open>x > c\<close> for a property \<open>x\<close> and a number \<open>c\<close>: \<^verbatim>\<open>undefined\<close> becomes NaN and \<^verbatim>\<open>null\<close>
  becomes 0 before the comparison.
\<close>

fun gt :: "rat field \<Rightarrow> rat \<Rightarrow> bool" where
  "gt (Val v) c = (v > c)"
| "gt Null c = (0 > c)"
| "gt Undefined c = False"

text \<open>\<^verbatim>\<open>x || 0\<close> for a numeric property: a missing value and 0 itself give 0.\<close>

fun or0 :: "rat field \<Rightarrow> rat" where
  "or0 (Val v) = v"
| "or0 Null = 0"
| "or0 Undefined = 0"

text \<open>
  \<^verbatim>\<open>Array.prototype.sort(cmp)\<close>: a stable sort (ECMAScript 2019); \<open>cmp a b > 0\<close> puts \<open>a\<close>
  after \<open>b\<close>. Every stable sort gives the same result for a comparator that is a
  difference of keys, so insertion from the right stands for the engine's algorithm.
\<close>

fun insert_by :: "('a \<Rightarrow> 'a \<Rightarrow> rat) \<Rightarrow> 'a \<Rightarrow> 'a list \<Rightarrow> 'a list" where
  "insert_by cmp x [] = [x]"
| "insert_by cmp x (y # ys) =
     (if cmp x y \<le> 0 then x # y # ys else y # insert_by cmp x ys)"

definition sort_by :: "('a \<Rightarrow> 'a \<Rightarrow> rat) \<Rightarrow> 'a list \<Rightarrow> 'a list" where
  "sort_by cmp xs = foldr (insert_by cmp) xs []"

section \<open>The relevance scorer: findRelevantMarkets\<close>

text \<open>The keyword table, in the order \<^verbatim>\<open>Object.entries\<close> lists it.\<close>

definition categories :: "(string \<times> string list) list" where
  "categories =
    [(''premier_league'', [''premier league'', ''epl'', ''english premier'', ''manchester'',
        ''liverpool'', ''chelsea'', ''arsenal'', ''tottenham'']),
     (''football'', [''football'', ''soccer'', ''fifa'', ''world cup'', ''uefa'',
        ''champions league'']),
     (''american_football'', [''nfl'', ''super bowl'', ''american football'', ''chiefs'',
        ''cowboys'', ''patriots'']),
     (''basketball'', [''nba'', ''basketball'', ''lakers'', ''warriors'', ''lebron'', ''finals'']),
     (''baseball'', [''mlb'', ''baseball'', ''yankees'', ''dodgers'', ''world series'']),
     (''fed_rates'', [''fed'', ''federal reserve'', ''interest rate'', ''fomc'',
        ''jerome powell'']),
     (''politics'', [''election'', ''president'', ''biden'', ''trump'', ''congress'', ''senate'']),
     (''crypto'', [''bitcoin'', ''ethereum'', ''crypto'', ''btc'', ''eth'', ''binance'',
        ''coinbase'']),
     (''stocks'', [''stock'', ''nasdaq'', ''dow'', ''sp500'', ''s&p'', ''apple'', ''tesla'',
        ''nvidia'']),
     (''entertainment'', [''oscar'', ''emmy'', ''grammy'', ''movie'', ''netflix'', ''disney''])]"

text \<open>
  \<^verbatim>\<open>queryLower.split(' ').filter(word => word.length > 2)\<close>; on ASCII text the length
  of a word is its number of characters.
\<close>

definition queryWords :: "string \<Rightarrow> string list" where
  "queryWords queryLower = filter (\<lambda>word. length word > 2) (split CHR '' '' queryLower)"

text \<open>The body of the first \<^verbatim>\<open>forEach\<close>: one query word against one market.\<close>

definition wordStep :: "string \<Rightarrow> string \<Rightarrow> string \<Rightarrow> int \<Rightarrow> int" where
  "wordStep t d word score =
     (let score1 = (if includes_str t word then score + 10 else score)
      in if includes_str d word then score1 + 5 else score1)"

text \<open>The body of the inner category \<^verbatim>\<open>forEach\<close>: one keyword against one market.\<close>

definition keywordStep :: "string \<Rightarrow> string \<Rightarrow> string \<Rightarrow> string \<Rightarrow> int \<Rightarrow> int" where
  "keywordStep queryLower t d keyword score =
     (if includes_str queryLower keyword
      then (if includes_str t keyword \<or> includes_str d keyword then score + 15 else score)
      else score)"

definition categoryStep :: "string \<Rightarrow> string \<Rightarrow> string \<Rightarrow> (string \<times> string list) \<Rightarrow> int \<Rightarrow> int" where
  "categoryStep queryLower t d entry score = fold (keywordStep queryLower t d) (snd entry) score"

text \<open>
  The score of one market (the body of \<^verbatim>\<open>markets.forEach\<close>). Calling \<^verbatim>\<open>toLowerCase\<close> on a
  missing title or description throws a TypeError; the title is read first.
\<close>

definition scoreMarket :: "string \<Rightarrow> market \<Rightarrow> error + int" where
  "scoreMarket queryLower m =
     (case title m of
        Val t0 \<Rightarrow>
          (case description m of
             Val d0 \<Rightarrow>
               (let t = toLowerCase t0;
                    d = toLowerCase d0;
                    score0 = fold (wordStep t d) (queryWords queryLower) 0;
                    score1 = fold (categoryStep queryLower t d) categories score0;
                    score2 = (if gt (volume24h m) 1000000 then score1 + 3 else score1);
                    score3 = (if gt (volume24h m) 5000000 then score2 + 2 else score2)
                in Inr score3)
           | _ \<Rightarrow> Inl TypeError)
      | _ \<Rightarrow> Inl TypeError)"

text \<open>
  \<^verbatim>\<open>markets.forEach((market, index) => ...)\<close> filling \<^verbatim>\<open>searchScore\<close>: the entries
  \<open>(index, score)\<close> of the markets with a positive score, in index order, which is the
  order \<^verbatim>\<open>Object.entries\<close> gives for integer keys. The first market that throws ends
  the whole call.
\<close>

fun searchScore :: "string \<Rightarrow> nat \<Rightarrow> market list \<Rightarrow> error + (nat \<times> int) list" where
  "searchScore queryLower index [] = Inr []"
| "searchScore queryLower index (m # ms) =
     (case scoreMarket queryLower m of
        Inl e \<Rightarrow> Inl e
      | Inr score \<Rightarrow>
          (case searchScore queryLower (Suc index) ms of
             Inl e \<Rightarrow> Inl e
           | Inr entries \<Rightarrow> Inr (if score > 0 then (index, score) # entries else entries)))"

text \<open>\<^verbatim>\<open>polymarketData.markets || []\<close>\<close>

definition marketsOf :: "polymarket_data \<Rightarrow> market list" where
  "marketsOf pd = (case markets pd of None \<Rightarrow> [] | Some ms \<Rightarrow> ms)"

text \<open>
  The value of \<^verbatim>\<open>relevantMarkets\<close> after the ranking: entries sorted by \<open>b - a\<close> on the
  scores, the first six, each mapped back to its market.
\<close>

definition rankedMarkets :: "string \<Rightarrow> market list \<Rightarrow> error + market list" where
  "rankedMarkets queryLower ms =
     (case searchScore queryLower 0 ms of
        Inl e \<Rightarrow> Inl e
      | Inr entries \<Rightarrow>
          Inr (map (\<lambda>(index, score). ms ! index)
                 (take 6 (sort_by (\<lambda>(i, a) (j, b). of_int (b - a)) entries))))"

text \<open>The volume fallback: the five largest positive 24-hour volumes.\<close>

definition fallbackMarkets :: "market list \<Rightarrow> market list" where
  "fallbackMarkets ms =
     take 5 (sort_by (\<lambda>a b. or0 (volume24h b) - or0 (volume24h a))
               (filter (\<lambda>m. gt (volume24h m) 0) ms))"

definition findRelevantMarkets :: "polymarket_data \<Rightarrow> string \<Rightarrow> error + market list" where
  "findRelevantMarkets pd query =
     (let queryLower = toLowerCase query; ms = marketsOf pd
      in case rankedMarkets queryLower ms of
           Inl e \<Rightarrow> Inl e
         | Inr relevantMarkets \<Rightarrow>
             if length relevantMarkets = 0 then Inr (fallbackMarkets ms)
             else Inr relevantMarkets)"

section \<open>Notions used to state the properties of the scorer\<close>

text \<open>A market whose title and description are both strings, so that scoring it does not throw.\<close>

definition hasText :: "market \<Rightarrow> bool" where
  "hasText m =
     (case title m of
        Val t \<Rightarrow> (case description m of Val d \<Rightarrow> True | _ \<Rightarrow> False)
      | _ \<Rightarrow> False)"



text \<open>The score as a number: what \<open>scoreMarket\<close> returns, and 0 where it throws.\<close>

definition scoreOf :: "string \<Rightarrow> market \<Rightarrow> int" where
  "scoreOf queryLower m = (case scoreMarket queryLower m of Inr s \<Rightarrow> s | Inl e \<Rightarrow> 0)"

text \<open>All keyword phrases of the table, in the order the two nested loops visit them.\<close>

definition allKeywords :: "string list" where
  "allKeywords = concat (map snd categories)"

text \<open>The part of the score that depends on the 24-hour volume only.\<close>

definition volumeBonus :: "market \<Rightarrow> int" where
  "volumeBonus m =
     (if gt (volume24h m) 1000000 then 3 else 0) + (if gt (volume24h m) 5000000 then 2 else 0)"

text \<open>A market with the given title, description and 24-hour volume, for concrete runs.\<close>

definition exampleMarket :: "string \<Rightarrow> string \<Rightarrow> rat field \<Rightarrow> market" where
  "exampleMarket t d v =
     \<lparr>id_market = Val t, title = Val t, description = Val d, outcomes = [],
      volume24h = v, volumeTotal = Undefined, liquidity = Undefined,
      favoredOutcome = Undefined, endTime = Undefined\<rparr>"



text \<open>
  Three markets that share no word with the query \<^verbatim>\<open>bitcoin\<close> and whose 24-hour volumes
  are 0, 900,000 and 500,000.
\<close>

definition lowVolumeMarkets :: "market list" where
  "lowVolumeMarkets =
    [exampleMarket ''Rain tomorrow'' ''weather'' (Val 0),
     exampleMarket ''Snow in July'' ''weather'' (Val 900000),
     exampleMarket ''Heatwave'' ''weather'' (Val 500000)]"

text \<open>
  The same three markets with the 24-hour volumes 0, 2,000,000 and 500,000.
\<close>

definition specVolumeMarkets :: "market list" where
  "specVolumeMarkets =
    [exampleMarket ''Rain tomorrow'' ''weather'' (Val 0),
     exampleMarket ''Snow in July'' ''weather'' (Val 2000000),
     exampleMarket ''Heatwave'' ''weather'' (Val 500000)]"

text \<open>
  A market whose \<^verbatim>\<open>title\<close> property is absent.
\<close>

definition untitledMarket :: market where
  "untitledMarket =
     \<lparr>id_market = Val ''m1'', title = Undefined, description = Val ''Will BTC close above'',
      outcomes = [], volume24h = Val 10, volumeTotal = Undefined, liquidity = Undefined,
      favoredOutcome = Undefined, endTime = Undefined\<rparr>"

text \<open>
  Two markets whose title and description are the empty string.
\<close>

definition blankMarkets :: "market list" where
  "blankMarkets =
    [exampleMarket '''' '''' (Val 2000000),
     exampleMarket '''' '''' Null]"

section \<open>The key proxy: handler\<close>

text \<open>
  What the handler reads: the method of the request and the environment variable
  \<^verbatim>\<open>OPENROUTER_API_KEY\<close>, which is a string when it is set. What it writes: a status
  code and a JSON body, which is either \<^verbatim>\<open>{error: ...}\<close> or \<^verbatim>\<open>{apiKey: ...}\<close>.
\<close>

record request =
  method_req :: string

record environment =
  OPENROUTER_API_KEY :: "string option"

datatype body = ErrorBody string | ApiKeyBody string

record response =
  status :: nat
  json :: body

text \<open>\<^verbatim>\<open>!apiKey\<close> holds for an unset variable and for the empty string.\<close>

definition handler :: "request \<Rightarrow> environment \<Rightarrow> response" where
  "handler req env =
     (if method_req req \<noteq> ''GET''
      then \<lparr>status = 405, json = ErrorBody ''Method not allowed''\<rparr>
      else (case OPENROUTER_API_KEY env of
              None \<Rightarrow> \<lparr>status = 500, json = ErrorBody ''API key not configured''\<rparr>
            | Some apiKey \<Rightarrow>
                if apiKey = [] then \<lparr>status = 500, json = ErrorBody ''API key not configured''\<rparr>
                else \<lparr>status = 200, json = ApiKeyBody apiKey\<rparr>))"

text \<open>The secret is configured when the variable is set to a non-empty string.\<close>

definition configured :: "environment \<Rightarrow> bool" where
  "configured env = (case OPENROUTER_API_KEY env of None \<Rightarrow> False | Some k \<Rightarrow> k \<noteq> [])"

section \<open>The conversation controller: sendMessage and analyzeSpecificMarket\<close>

text \<open>
  The controller's state is the three globals \<^verbatim>\<open>polymarketData\<close> (\<^verbatim>\<open>null\<close> until the
  snapshot is loaded), \<^verbatim>\<open>chatHistory\<close> and \<^verbatim>\<open>isLoading\<close>, the text of the input box,
  and the model calls that have been started and whose promise is not settled yet. The
  rest of the page (welcome message, typing indicator, scrolling, the alert) is left out.

  Both entry points are \<^verbatim>\<open>async\<close> functions. Each runs without interruption up to its
  \<^verbatim>\<open>await\<close>; there the call is in flight and other events may run. When the awaited
  promise settles, the rest of the function runs, again without interruption. The awaited
  promise is that of \<^verbatim>\<open>getAIResponse\<close> (or \<^verbatim>\<open>getDetailedMarketAnalysis\<close>): it is
  fulfilled or rejected once the model service has replied, and what the service replies
  is an input of the model (see \<open>settle\<close> below).

  A turn of the history keeps the content as \<^verbatim>\<open>addMessage\<close> is handed it: a string for
  the user's turns and the fixed error texts, and whatever \<^verbatim>\<open>getAIResponse\<close> resolves
  to for an answer, which is \<^verbatim>\<open>null\<close> or \<^verbatim>\<open>undefined\<close> when the reply carries no text.
\<close>

record turn =
  sender :: string
  content :: "string field"

datatype request_kind = SendRequest string | DetailRequest market

record controller =
  polymarketData :: "polymarket_data option"
  chatHistory :: "turn list"
  isLoading :: bool
  messageInput :: string
  inFlight :: "request_kind list"

text \<open>\<^verbatim>\<open>addMessage(sender, content)\<close>, as far as the state goes: \<^verbatim>\<open>chatHistory.push\<close>.\<close>

definition addMessage :: "string \<Rightarrow> string field \<Rightarrow> controller \<Rightarrow> controller" where
  "addMessage s c st = st\<lparr>chatHistory := chatHistory st @ [\<lparr>sender = s, content = c\<rparr>]\<rparr>"

text \<open>
  \<^verbatim>\<open>String.prototype.trim\<close> on ASCII text: tab, line feed, vertical tab, form feed,
  carriage return and space are removed from both ends. JavaScript also removes the
  white space outside ASCII (the no-break space among it), which this function keeps.
\<close>

definition isWhiteSpace :: "char \<Rightarrow> bool" where
  "isWhiteSpace c = (c \<in> set [CHR 0x09, CHR 0x0A, CHR 0x0B, CHR 0x0C, CHR 0x0D, CHR '' ''])"

definition trim :: "string \<Rightarrow> string" where
  "trim s = rev (dropWhile isWhiteSpace (rev (dropWhile isWhiteSpace s)))"



text \<open>\<^verbatim>\<open>sendMessage()\<close> up to its \<^verbatim>\<open>await\<close>.\<close>

definition sendMessage :: "controller \<Rightarrow> controller" where
  "sendMessage st =
     (if isLoading st then st
      else let message = trim (messageInput st) in
        if message = [] then st
        else if polymarketData st = None then st
        else
          (let st1 = st\<lparr>messageInput := []\<rparr>;
               st2 = addMessage ''user'' (Val message) st1;
               st3 = st2\<lparr>isLoading := True\<rparr>
           in st3\<lparr>inFlight := inFlight st3 @ [SendRequest message]\<rparr>))"

text \<open>
  \<^verbatim>\<open>polymarketData.markets.find(m => m.id === marketId)\<close>: the first market whose id is
  the string \<open>marketId\<close>.
\<close>

definition findMarket :: "market list \<Rightarrow> string \<Rightarrow> market option" where
  "findMarket ms marketId = find (\<lambda>m. id_market m = Val marketId) ms"

text \<open>
  \<^verbatim>\<open>analyzeSpecificMarket(marketId, marketTitle)\<close> up to its \<^verbatim>\<open>await\<close>. Reading
  \<^verbatim>\<open>markets\<close> of a snapshot that is not loaded, or calling \<^verbatim>\<open>find\<close> on an absent list,
  throws before anything is changed; the rejected promise is dropped by the caller.
\<close>

definition analyzeSpecificMarket :: "string \<Rightarrow> string \<Rightarrow> controller \<Rightarrow> controller" where
  "analyzeSpecificMarket marketId marketTitle st =
     (case polymarketData st of
        None \<Rightarrow> st
      | Some pd \<Rightarrow>
          (case markets pd of
             None \<Rightarrow> st
           | Some ms \<Rightarrow>
               (case findMarket ms marketId of
                  None \<Rightarrow> st
                | Some market \<Rightarrow>
                    (let st1 = addMessage ''user'' (Val (''Tell me more about: '' @ marketTitle)) st
                     in st1\<lparr>inFlight := inFlight st1 @ [DetailRequest market]\<rparr>))))"


text \<open>
  A controller at rest: the snapshot is loaded, two turns are in the history, a question
  is in the input box and no call is in flight.
\<close>

definition idleState :: controller where
  "idleState =
     \<lparr>polymarketData = Some \<lparr>markets = Some [exampleMarket ''NBA finals'' '''' (Val 2000000)]\<rparr>,
      chatHistory = [\<lparr>sender = ''user'', content = Val ''hello''\<rparr>,
                     \<lparr>sender = ''bot'', content = Val ''hi''\<rparr>],
      isLoading = False,
      messageInput = '' Who wins the NBA finals? '',
      inFlight = []\<rparr>"

text \<open>
  The same controller after the question has been sent: its call is in flight.
\<close>

definition busyState :: controller where
  "busyState = sendMessage idleState"

section \<open>Numbers: rounding to a double, toString and toFixed\<close>

text \<open>
  A finite double is represented by the rational number it denotes. An arithmetic
  operation on doubles gives the double nearest to the exact result, ties going to the
  even significand, and a decimal literal denotes the double nearest to it. \<open>toDouble\<close>
  is that rounding for the finite range: 53 significant bits, the exponent bounded below
  by that of the subnormal numbers. Overflow to an infinity is not modelled; the
  quotients formed by the formatter are smaller than their dividends and cannot overflow.
\<close>

text \<open>The integer part of the binary logarithm of a positive number.\<close>

definition ilog2 :: "rat \<Rightarrow> int" where
  "ilog2 x = (if 1 \<le> x then bitlen \<lfloor>x\<rfloor> - 1 else - bitlen (\<lceil>1 / x\<rceil> - 1))"

text \<open>The nearest integer, the even one of two that are equally near.\<close>

definition roundHalfEven :: "rat \<Rightarrow> int" where
  "roundHalfEven y =
     (let f = \<lfloor>y\<rfloor>; r = y - of_int f
      in if r < 1 / 2 then f else if 1 / 2 < r then f + 1 else if even f then f else f + 1)"

definition toDouble :: "rat \<Rightarrow> rat" where
  "toDouble x =
     (if x = 0 then 0
      else let e = max (ilog2 \<bar>x\<bar>) (- 1022);
               u = 2 powi (e - 52)
           in sgn x * of_int (roundHalfEven (\<bar>x\<bar> / u)) * u)"

text \<open>The doubles among the rationals: the numbers that rounding leaves as they are.\<close>

definition isDouble :: "rat \<Rightarrow> bool" where
  "isDouble x = (toDouble x = x)"

text \<open>\<^verbatim>\<open>a / b\<close> on doubles, for a divisor other than 0.\<close>

definition fdiv :: "rat \<Rightarrow> rat \<Rightarrow> rat" where
  "fdiv a b = toDouble (a / b)"

text \<open>\<^verbatim>\<open>x < c\<close> for a property \<open>x\<close> and a number \<open>c\<close>, with the coercions of \<open>gt\<close>.\<close>

fun lt :: "rat field \<Rightarrow> rat \<Rightarrow> bool" where
  "lt (Val v) c = (v < c)"
| "lt Null c = (0 < c)"
| "lt Undefined c = False"

text \<open>The decimal digits of a non-negative integer, without leading zeros.\<close>

definition digitChar :: "int \<Rightarrow> char" where
  "digitChar d = ''0123456789'' ! nat d"

function digits :: "int \<Rightarrow> string" where
  "digits n = (if n < 10 then [digitChar n] else digits (n div 10) @ [digitChar (n mod 10)])"
  by pat_completeness auto

termination
  by (relation "measure nat") auto

declare digits.simps [simp del]

text \<open>
  \<^verbatim>\<open>Number::toString\<close> for a double \<open>x\<close> of at least \<open>10\<^sup>2\<^sup>1\<close>, where it is the
  exponent notation of the shortest decimal numeral that \<open>x\<close> is the nearest double of:
  among the numerals \<open>s \<times> 10\<^bsup>n-k\<^esup>\<close> with \<open>k\<close> digits that round to \<open>x\<close>, \<open>k\<close> is the
  least possible and \<open>s\<close> is the one nearest to \<open>x\<close>, the even one on a tie. Seventeen
  digits always suffice. \<open>shortestAt x n k\<close> looks for \<open>s\<close> with \<open>k\<close> digits; the \<open>s\<close>
  nearest to \<open>x\<close> is one of the two around \<open>x / 10\<^bsup>n-k\<^esup>\<close>.
\<close>

definition shortestAt :: "rat \<Rightarrow> nat \<Rightarrow> nat \<Rightarrow> int option" where
  "shortestAt x n k =
     (let p = 10 ^ (n - k);
          lo = \<lfloor>x / p\<rfloor>;
          okLo = (toDouble (of_int lo * p) = x);
          okHi = (toDouble (of_int (lo + 1) * p) = x);
          dLo = x - of_int lo * p;
          dHi = of_int (lo + 1) * p - x
      in if okLo \<and> okHi then
           (if dLo < dHi then Some lo else if dHi < dLo then Some (lo + 1)
            else if even lo then Some lo else Some (lo + 1))
         else if okLo then Some lo
         else if okHi then Some (lo + 1)
         else None)"

fun shortest :: "rat \<Rightarrow> nat \<Rightarrow> nat list \<Rightarrow> (nat \<times> int) option" where
  "shortest x n [] = None"
| "shortest x n (k # ks) =
     (case shortestAt x n k of Some s \<Rightarrow> Some (k, s) | None \<Rightarrow> shortest x n ks)"

definition toStringLarge :: "rat \<Rightarrow> string" where
  "toStringLarge x =
     (let n = length (digits \<lfloor>x\<rfloor>) in
      if toDouble (10 ^ n) = x then ''1e+'' @ digits (int n)
      else (case shortest x n [1..<18] of
              None \<Rightarrow> digits \<lfloor>x\<rfloor>
            | Some (k, s) \<Rightarrow>
                (if k = 1 then digits s else take 1 (digits s) @ ''.'' @ drop 1 (digits s))
                @ ''e+'' @ digits (int n - 1)))"

text \<open>
  \<^verbatim>\<open>Number.prototype.toFixed(f)\<close> on a finite double, after ECMA-262: the sign is split
  off; from \<open>10\<^sup>2\<^sup>1\<close> on the result is \<^verbatim>\<open>Number::toString\<close> of the value; below, \<open>n\<close> is the
  integer for which \<open>n / 10\<^sup>f\<close> is nearest to the value (the larger of two), and its
  digits, padded with zeros to \<open>f + 1\<close> places, get a point before the last \<open>f\<close> of them.
\<close>

definition toFixed :: "nat \<Rightarrow> rat \<Rightarrow> string" where
  "toFixed f x0 =
     (let s = (if x0 < 0 then ''-'' else []);
          x = \<bar>x0\<bar>
      in if 10 ^ 21 \<le> x then s @ toStringLarge x
         else
           (let n = \<lfloor>x * 10 ^ f + 1 / 2\<rfloor>;
                m = digits n
            in if f \<noteq> 0 then
                 (let k = length m;
                      m1 = (if k \<le> f then replicate (f + 1 - k) CHR ''0'' @ m else m);
                      k1 = (if k \<le> f then f + 1 else k)
                  in s @ take (k1 - f) m1 @ ''.'' @ drop (k1 - f) m1)
               else s @ m))"

section \<open>The response formatter: formatVolume and the outcome classes\<close>

text \<open>
  \<^verbatim>\<open>formatVolume(vol)\<close> of \<^verbatim>\<open>createMarketCard\<close>. \<^verbatim>\<open>!vol\<close> holds for a missing volume and
  for 0.
\<close>

definition formatVolume :: "rat field \<Rightarrow> string" where
  "formatVolume vol =
     (case vol of
        Undefined \<Rightarrow> ''$0''
      | Null \<Rightarrow> ''$0''
      | Val v \<Rightarrow>
          if v = 0 then ''$0''
          else if v > 1000000 then ''$'' @ toFixed 1 (fdiv v 1000000) @ ''M''
          else if v > 1000 then ''$'' @ toFixed 1 (fdiv v 1000) @ ''K''
          else ''$'' @ toFixed 0 v)"

text \<open>
  The class given to an outcome by \<^verbatim>\<open>createMarketCard\<close>:
  \<^verbatim>\<open>price > 0.6 ? 'favored' : price < 0.4 ? 'underdog' : 'neutral'\<close>. The literals are
  the doubles nearest to 0.6 and 0.4.
\<close>

definition outcomeClass :: "outcome \<Rightarrow> string" where
  "outcomeClass outcome1 =
     (if gt (price outcome1) (toDouble (6 / 10)) then ''favored''
      else if lt (price outcome1) (toDouble (4 / 10)) then ''underdog''
      else ''neutral'')"

text \<open>
  The numeral with one digit after the point that is nearest to \<open>x \<ge> 0\<close>, the larger of
  two that are equally near; and the nearest numeral without a fraction.
\<close>

definition oneDecimal :: "rat \<Rightarrow> string" where
  "oneDecimal x =
     (let n = \<lfloor>x * 10 + 1 / 2\<rfloor> in digits (n div 10) @ ''.'' @ digits (n mod 10))"

definition noDecimals :: "rat \<Rightarrow> string" where
  "noDecimals x = digits \<lfloor>x + 1 / 2\<rfloor>"

text \<open>
  The number that a string of decimal digits denotes, for reading a printed numeral back.
\<close>

definition digitValue :: "char \<Rightarrow> int" where
  "digitValue c = int (length (takeWhile (\<lambda>d. d \<noteq> c) ''0123456789''))"

definition decimalValue :: "string \<Rightarrow> int" where
  "decimalValue ds = foldl (\<lambda>a c. 10 * a + digitValue c) 0 ds"

section \<open>The market card and the formatted answer\<close>














section \<open>The model call: callOpenRouterAPI, getAIResponse and the settlement of a request\<close>














section \<open>Lemmas about the scorer\<close>

lemma fold_wordStep:
  "fold (wordStep t d) ws s =
     s + 10 * int (length (filter (includes_str t) ws)) + 5 * int (length (filter (includes_str d) ws))"
  by (induction ws arbitrary: s) (simp_all add: wordStep_def Let_def)

lemma fold_keywordStep:
  "fold (keywordStep q t d) ks s =
     s + 15 * int (length (filter (\<lambda>k. includes_str q k \<and> (includes_str t k \<or> includes_str d k)) ks))"
  by (induction ks arbitrary: s) (simp_all add: keywordStep_def)

lemma fold_categoryStep:
  "fold (categoryStep q t d) cs s =
     s + 15 * int (length (filter (\<lambda>k. includes_str q k \<and> (includes_str t k \<or> includes_str d k))
                              (concat (map snd cs))))"
  by (induction cs arbitrary: s) (simp_all add: categoryStep_def fold_keywordStep)

lemma sort_by_sort_key:
  fixes k :: "'a \<Rightarrow> 'b::linordered_idom"
  assumes "\<And>a b. (cmp a b \<le> 0) = (k b \<le> k a)"
  shows "sort_by cmp xs = sort_key (\<lambda>x. - k x) xs"
proof -
  have ins: "insert_by cmp x ys = insort_key (\<lambda>x. - k x) x ys" for x ys
    by (induction ys) (simp_all add: assms)
  show ?thesis
    unfolding sort_by_def sort_key_def by (induction xs) (simp_all add: ins)
qed

lemma hasText_score: "hasText m \<Longrightarrow> scoreMarket q m = Inr (scoreOf q m)"
  by (auto simp: hasText_def scoreOf_def scoreMarket_def Let_def split: field.splits)

lemma not_hasText_score: "\<not> hasText m \<Longrightarrow> scoreMarket q m = Inl TypeError"
  by (auto simp: hasText_def scoreMarket_def Let_def split: field.splits)

lemma searchScore_ok:
  "\<forall>m\<in>set ms. hasText m \<Longrightarrow>
   searchScore q i ms =
     Inr (map (\<lambda>j. (i + j, scoreOf q (ms ! j))) (filter (\<lambda>j. 0 < scoreOf q (ms ! j)) [0..<length ms]))"
proof (induction ms arbitrary: i)
  case Nil
  then show ?case by simp
next
  case (Cons m ms)
  have up: "[0..<length (m # ms)] = 0 # map Suc [0..<length ms]"
    by (simp add: upt_conv_Cons map_Suc_upt del: upt_Suc)
  from Cons show ?case
    unfolding up by (simp add: hasText_score filter_map comp_def del: upt_Suc)
qed

lemma searchScore_fail:
  "\<exists>m\<in>set ms. \<not> hasText m \<Longrightarrow> searchScore q i ms = Inl TypeError"
proof (induction ms arbitrary: i)
  case Nil
  then show ?case by simp
next
  case (Cons m ms)
  show ?case
  proof (cases "hasText m")
    case True
    with Cons show ?thesis by (auto simp: hasText_score)
  next
    case False
    then show ?thesis by (simp add: not_hasText_score)
  qed
qed

lemma sort_key_map: "sort_key k (map g xs) = map g (sort_key (\<lambda>x. k (g x)) xs)"
proof -
  have ins: "insort_key k (g x) (map g ys) = map g (insort_key (\<lambda>x. k (g x)) x ys)" for x ys
    by (induction ys) simp_all
  show ?thesis by (induction xs) (simp_all add: ins)
qed

lemma rankedMarkets_ok:
  assumes "\<forall>m\<in>set ms. hasText m"
  shows "rankedMarkets q ms =
    Inr (take 6 (sort_key (\<lambda>m. - scoreOf q m) (filter (\<lambda>m. 0 < scoreOf q m) ms)))"
proof -
  let ?P = "\<lambda>j. 0 < scoreOf q (ms ! j)"
  let ?g = "\<lambda>j. (j, scoreOf q (ms ! j))"
  have cmp: "sort_by (\<lambda>(i, a) (j, b). of_int (b - a)) es = sort_key (\<lambda>e. - snd e) es"
    for es :: "(nat \<times> int) list"
    by (rule sort_by_sort_key) (auto split: prod.splits)
  have "map (\<lambda>(index, score). ms ! index) (take 6 (sort_key (\<lambda>e. - snd e) (map ?g (filter ?P [0..<length ms]))))
      = take 6 (map ((!) ms) (sort_key (\<lambda>j. - scoreOf q (ms ! j)) (filter ?P [0..<length ms])))"
    by (simp add: sort_key_map take_map comp_def)
  also have "map ((!) ms) (sort_key (\<lambda>j. - scoreOf q (ms ! j)) (filter ?P [0..<length ms]))
      = sort_key (\<lambda>m. - scoreOf q m) (map ((!) ms) (filter ?P [0..<length ms]))"
    by (simp add: sort_key_map)
  also have "map ((!) ms) (filter ?P [0..<length ms]) = filter (\<lambda>m. 0 < scoreOf q m) (map ((!) ms) [0..<length ms])"
    by (simp add: filter_map comp_def)
  also have "map ((!) ms) [0..<length ms] = ms"
    by (rule map_nth)
  finally show ?thesis
    using assms by (simp add: rankedMarkets_def searchScore_ok cmp del: of_int_diff)
qed

lemma scoreMarket_formula:
  "title m = Val t \<Longrightarrow> description m = Val d \<Longrightarrow>
   scoreMarket q m =
     Inr (10 * int (length (filter (includes_str (toLowerCase t)) (queryWords q)))
        + 5 * int (length (filter (includes_str (toLowerCase d)) (queryWords q)))
        + 15 * int (length (filter (\<lambda>k. includes_str q k \<and>
                      (includes_str (toLowerCase t) k \<or> includes_str (toLowerCase d) k)) allKeywords))
        + volumeBonus m)"
  by (simp add: scoreMarket_def Let_def fold_wordStep fold_categoryStep allKeywords_def volumeBonus_def)

lemma scoreOf_nonneg: "0 \<le> scoreOf q m"
proof (cases "hasText m")
  case True
  then obtain t d where "title m = Val t" "description m = Val d"
    by (auto simp: hasText_def split: field.splits)
  from scoreMarket_formula[OF this, of q] show ?thesis
    by (simp add: scoreOf_def volumeBonus_def)
next
  case False
  then show ?thesis by (simp add: scoreOf_def not_hasText_score)
qed



lemma findRelevantMarkets_ok:
  assumes "\<forall>m\<in>set ms. hasText m"
  shows "findRelevantMarkets \<lparr>markets = Some ms\<rparr> q =
    (let r = take 6 (sort_key (\<lambda>m. - scoreOf (toLowerCase q) m)
                       (filter (\<lambda>m. 0 < scoreOf (toLowerCase q) m) ms))
     in if r = [] then Inr (fallbackMarkets ms) else Inr r)"
proof -
  have ms: "marketsOf \<lparr>markets = Some ms\<rparr> = ms"
    by (simp add: marketsOf_def)
  show ?thesis
    unfolding findRelevantMarkets_def Let_def ms rankedMarkets_ok[OF assms]
    by (simp only: sum.case length_0_conv)
qed

lemma ranking_nonempty:
  "(take 6 (sort_key k (filter P xs)) = []) = (\<forall>x\<in>set xs. \<not> P x)"
proof -
  have "(take 6 (sort_key k (filter P xs)) = []) = (length (sort_key k (filter P xs)) = 0)"
    by (simp only: take_eq_Nil length_0_conv) simp
  also have "\<dots> = (filter P xs = [])"
    by simp
  also have "\<dots> = (\<forall>x\<in>set xs. \<not> P x)"
    by (simp add: filter_empty_conv)
  finally show ?thesis .
qed

text \<open>Whichever branch is taken, at most six markets come back.\<close>

lemma findRelevantMarkets_at_most_six:
  assumes "\<forall>m\<in>set ms. hasText m"
  shows "\<exists>rs. findRelevantMarkets \<lparr>markets = Some ms\<rparr> q = Inr rs \<and> length rs \<le> 6"
  by (auto simp: findRelevantMarkets_ok[OF assms] Let_def fallbackMarkets_def)

section \<open>C1: ranking by relevance\<close>




section \<open>Lemmas about empty texts, the volume bonus and the failure of scoring\<close>

lemma keywords_nonempty: "\<forall>k\<in>set allKeywords. k \<noteq> []"
  by (simp add: allKeywords_def categories_def)

lemma includes_str_empty: "includes_str [] w = (w = [])"
  by simp

lemma no_keyword_in_empty:
  "filter (\<lambda>k. k = [] \<and> P k) allKeywords = []"
  using keywords_nonempty by (simp add: filter_empty_conv)

lemma no_keyword_of_empty:
  "filter (\<lambda>k. P k \<and> k = []) allKeywords = []"
  using keywords_nonempty by (simp add: filter_empty_conv)

lemma queryWords_long: "\<forall>w\<in>set (queryWords q). w \<noteq> []"
  by (auto simp: queryWords_def)

lemma no_word_in_empty: "filter (includes_str []) (queryWords q) = []"
  using queryWords_long by (simp add: filter_empty_conv)

lemma queryWords_empty: "queryWords (toLowerCase '''') = []"
  by (simp add: queryWords_def toLowerCase_def)

lemma emptyQuery_scoreOf:
  assumes "hasText m"
  shows "scoreMarket (toLowerCase '''') m = Inr (volumeBonus m)"
proof -
  from assms obtain t d where td: "title m = Val t" "description m = Val d"
    by (auto simp: hasText_def split: field.splits)
  have e: "toLowerCase '''' = []"
    by (simp add: toLowerCase_def)
  show ?thesis
    unfolding scoreMarket_formula[OF td] e
    by (simp add: no_keyword_in_empty queryWords_def)
qed

lemma emptyText_score:
  assumes "title m = Val ''''" "description m = Val ''''"
  shows "scoreMarket q m = Inr (volumeBonus m)"
proof -
  have e: "toLowerCase '''' = []"
    by (simp add: toLowerCase_def)
  show ?thesis
    unfolding scoreMarket_formula[OF assms] e
    by (simp add: no_keyword_of_empty no_word_in_empty)
qed

lemma volumeBonus_pos: "(0 < volumeBonus m) = gt (volume24h m) 1000000"
  by (cases "volume24h m") (auto simp: volumeBonus_def)




lemma insort_key_cong_set:
  "f x = g x \<Longrightarrow> (\<And>y. y \<in> set ys \<Longrightarrow> f y = g y) \<Longrightarrow> insort_key f x ys = insort_key g x ys"
  by (induction ys) simp_all

lemma sort_key_cong_set:
  "(\<And>x. x \<in> set xs \<Longrightarrow> f x = g x) \<Longrightarrow> sort_key f xs = sort_key g xs"
proof (induction xs)
  case Nil
  then show ?case by simp
next
  case (Cons x xs)
  then have "sort_key f xs = sort_key g xs" by simp
  moreover have "insort_key f x (sort_key g xs) = insort_key g x (sort_key g xs)"
    by (rule insort_key_cong_set) (simp_all add: Cons.prems)
  ultimately show ?case by simp
qed

lemma findRelevantMarkets_fail:
  assumes "\<exists>m\<in>set ms. \<not> hasText m"
  shows "findRelevantMarkets \<lparr>markets = Some ms\<rparr> q = Inl TypeError"
  by (simp add: findRelevantMarkets_def marketsOf_def rankedMarkets_def searchScore_fail[OF assms])


section \<open>C2: the empty query\<close>

text \<open>
  C2, as amended. For the empty query the word loop has no word to visit and no keyword
  phrase occurs in the query, so the score of every market is its volume bonus alone.
  The result is the volume fallback when no market has a 24-hour volume above 1,000,000;
  when some market has, the markets above 1,000,000 are ranked by their bonus instead
  (five for those above 5,000,000, three for the others, ties in list order) and the first
  six are returned.
\<close>

theorem emptyQuery_volume_only:
  assumes wf: "\<forall>m\<in>set ms. hasText m"
  shows "queryWords (toLowerCase '''') = []
     \<and> filter (includes_str (toLowerCase '''')) allKeywords = []
     \<and> (\<forall>m\<in>set ms. scoreMarket (toLowerCase '''') m = Inr (volumeBonus m))
     \<and> ((\<forall>m\<in>set ms. \<not> gt (volume24h m) 1000000) \<longrightarrow>
          findRelevantMarkets \<lparr>markets = Some ms\<rparr> '''' = Inr (fallbackMarkets ms))
     \<and> ((\<exists>m\<in>set ms. gt (volume24h m) 1000000) \<longrightarrow>
          findRelevantMarkets \<lparr>markets = Some ms\<rparr> '''' =
            Inr (take 6 (sort_key (\<lambda>m. - volumeBonus m)
                           (filter (\<lambda>m. gt (volume24h m) 1000000) ms))))"
proof -
  let ?k = "scoreOf (toLowerCase '''')"
  have e: "toLowerCase '''' = []"
    by (simp add: toLowerCase_def)
  have c1: "queryWords (toLowerCase '''') = []"
    by (rule queryWords_empty)
  have c2: "filter (includes_str (toLowerCase '''')) allKeywords = []"
    unfolding e using keywords_nonempty by (simp add: filter_empty_conv)
  have c3: "\<forall>m\<in>set ms. scoreMarket (toLowerCase '''') m = Inr (volumeBonus m)"
    using wf emptyQuery_scoreOf by blast
  have k: "?k m = volumeBonus m" if "m \<in> set ms" for m
    using c3 that by (simp add: scoreOf_def)
  have flt: "filter (\<lambda>m. 0 < ?k m) ms = filter (\<lambda>m. gt (volume24h m) 1000000) ms"
    by (rule filter_cong) (simp_all add: k volumeBonus_pos)
  have srt: "sort_key (\<lambda>m. - ?k m) (filter (\<lambda>m. gt (volume24h m) 1000000) ms)
           = sort_key (\<lambda>m. - volumeBonus m) (filter (\<lambda>m. gt (volume24h m) 1000000) ms)"
    by (rule sort_key_cong_set) (simp add: k)
  have res: "findRelevantMarkets \<lparr>markets = Some ms\<rparr> '''' =
    (let r = take 6 (sort_key (\<lambda>m. - volumeBonus m) (filter (\<lambda>m. gt (volume24h m) 1000000) ms))
     in if r = [] then Inr (fallbackMarkets ms) else Inr r)"
    unfolding findRelevantMarkets_ok[OF wf] flt srt ..
  have c4: "(\<forall>m\<in>set ms. \<not> gt (volume24h m) 1000000) \<longrightarrow>
          findRelevantMarkets \<lparr>markets = Some ms\<rparr> '''' = Inr (fallbackMarkets ms)"
    unfolding res Let_def by (simp only: ranking_nonempty) simp
  have c5: "(\<exists>m\<in>set ms. gt (volume24h m) 1000000) \<longrightarrow>
          findRelevantMarkets \<lparr>markets = Some ms\<rparr> '''' =
            Inr (take 6 (sort_key (\<lambda>m. - volumeBonus m)
                           (filter (\<lambda>m. gt (volume24h m) 1000000) ms)))"
    unfolding res Let_def by (simp only: ranking_nonempty) simp
  from c1 c2 c3 c4 c5 show ?thesis by (intro conjI)
qed

text \<open>
  A run of C2 on three markets, none above 1,000,000: the fallback is returned.
\<close>

theorem emptyQuery_volume_only_witness:
  "list_all hasText lowVolumeMarkets
   \<and> list_all (\<lambda>m. \<not> gt (volume24h m) 1000000) lowVolumeMarkets
   \<and> findRelevantMarkets \<lparr>markets = Some lowVolumeMarkets\<rparr> '''' =
       Inr [exampleMarket ''Snow in July'' ''weather'' (Val 900000),
            exampleMarket ''Heatwave'' ''weather'' (Val 500000)]"
proof -
  have h1: "\<forall>m\<in>set lowVolumeMarkets. hasText m"
    by code_simp
  have h2: "\<forall>m\<in>set lowVolumeMarkets. \<not> gt (volume24h m) 1000000"
    by code_simp
  have ev: "fallbackMarkets lowVolumeMarkets =
       [exampleMarket ''Snow in July'' ''weather'' (Val 900000),
        exampleMarket ''Heatwave'' ''weather'' (Val 500000)]"
    by code_simp
  from emptyQuery_volume_only[OF h1] h2
  have "findRelevantMarkets \<lparr>markets = Some lowVolumeMarkets\<rparr> '''' =
          Inr (fallbackMarkets lowVolumeMarkets)"
    by (elim conjE) (erule (1) mp)
  then have res: "findRelevantMarkets \<lparr>markets = Some lowVolumeMarkets\<rparr> '''' =
       Inr [exampleMarket ''Snow in July'' ''weather'' (Val 900000),
            exampleMarket ''Heatwave'' ''weather'' (Val 500000)]"
    by (simp only: ev)
  from h1 have a: "list_all hasText lowVolumeMarkets"
    by (simp only: list_all_iff)
  from h2 have b: "list_all (\<lambda>m. \<not> gt (volume24h m) 1000000) lowVolumeMarkets"
    by (simp only: list_all_iff)
  from a b res show ?thesis by (intro conjI)
qed

text \<open>
  C2 as first stated fails: with one market above 1,000,000 the empty query returns that
  market alone, while the fallback would return two markets.
\<close>

theorem emptyQuery_fallback_counterexample:
  "findRelevantMarkets \<lparr>markets = Some specVolumeMarkets\<rparr> '''' =
       Inr [exampleMarket ''Snow in July'' ''weather'' (Val 2000000)]
   \<and> fallbackMarkets specVolumeMarkets =
       [exampleMarket ''Snow in July'' ''weather'' (Val 2000000),
        exampleMarket ''Heatwave'' ''weather'' (Val 500000)]
   \<and> findRelevantMarkets \<lparr>markets = Some specVolumeMarkets\<rparr> '''' \<noteq>
       Inr (fallbackMarkets specVolumeMarkets)"
  by code_simp

section \<open>C3: markets without title or description\<close>

text \<open>
  C3, as amended. When every market has a title and a description (the empty string
  included) the scorer returns a list and does not throw, for every query; a market whose
  title and description are both the empty string scores its volume bonus, whatever the
  query. A missing title or description is not read as the empty string: as soon as one
  market of the list lacks either, the call throws a TypeError.
\<close>

theorem scoring_needs_text:
  "((\<forall>m\<in>set ms. hasText m) \<longrightarrow> (\<exists>rs. findRelevantMarkets \<lparr>markets = Some ms\<rparr> q = Inr rs))
   \<and> (title m = Val '''' \<and> description m = Val '''' \<longrightarrow>
        scoreMarket (toLowerCase q) m = Inr (volumeBonus m))
   \<and> ((\<exists>m\<in>set ms. \<not> hasText m) \<longrightarrow>
        findRelevantMarkets \<lparr>markets = Some ms\<rparr> q = Inl TypeError)"
proof (intro conjI impI)
  assume "\<forall>m\<in>set ms. hasText m"
  from findRelevantMarkets_ok[OF this, of q]
  show "\<exists>rs. findRelevantMarkets \<lparr>markets = Some ms\<rparr> q = Inr rs"
    by (simp add: Let_def)
next
  assume "title m = Val '''' \<and> description m = Val ''''"
  then show "scoreMarket (toLowerCase q) m = Inr (volumeBonus m)"
    by (simp add: emptyText_score)
next
  assume "\<exists>m\<in>set ms. \<not> hasText m"
  then show "findRelevantMarkets \<lparr>markets = Some ms\<rparr> q = Inl TypeError"
    by (rule findRelevantMarkets_fail)
qed

text \<open>
  Runs of C3: two markets with empty texts and a non-empty query give a result, and a list
  holding a market without title throws.
\<close>

theorem scoring_needs_text_witness:
  "list_all hasText blankMarkets
   \<and> findRelevantMarkets \<lparr>markets = Some blankMarkets\<rparr> ''Bitcoin price'' =
        Inr [exampleMarket '''' '''' (Val 2000000)]
   \<and> scoreMarket (toLowerCase ''Bitcoin price'') (exampleMarket '''' '''' (Val 2000000)) = Inr 3
   \<and> list_ex (\<lambda>m. \<not> hasText m) [exampleMarket ''Bitcoin ETF'' ''bitcoin'' Null, untitledMarket]
   \<and> findRelevantMarkets
        \<lparr>markets = Some [exampleMarket ''Bitcoin ETF'' ''bitcoin'' Null, untitledMarket]\<rparr>
        ''Bitcoin price'' = Inl TypeError"
proof -
  have h1: "\<forall>m\<in>set blankMarkets. hasText m"
    by code_simp
  have h2: "title (exampleMarket '''' '''' (Val 2000000)) = Val ''''
            \<and> description (exampleMarket '''' '''' (Val 2000000)) = Val ''''"
    by (simp add: exampleMarket_def)
  have h3: "\<exists>m\<in>set [exampleMarket ''Bitcoin ETF'' ''bitcoin'' Null, untitledMarket]. \<not> hasText m"
    by code_simp
  have b: "volumeBonus (exampleMarket '''' '''' (Val 2000000)) = 3"
    by code_simp
  note t1 = scoring_needs_text[of blankMarkets "''Bitcoin price''" "exampleMarket '''' '''' (Val 2000000)"]
  note t2 = scoring_needs_text[of "[exampleMarket ''Bitcoin ETF'' ''bitcoin'' Null, untitledMarket]"
      "''Bitcoin price''" "exampleMarket '''' '''' (Val 2000000)"]
  have "findRelevantMarkets \<lparr>markets = Some blankMarkets\<rparr> ''Bitcoin price'' =
        Inr [exampleMarket '''' '''' (Val 2000000)]"
    by code_simp
  moreover from t1 h2 b have "scoreMarket (toLowerCase ''Bitcoin price'') (exampleMarket '''' '''' (Val 2000000)) = Inr 3"
    by simp
  moreover from t2 h3 have "findRelevantMarkets
        \<lparr>markets = Some [exampleMarket ''Bitcoin ETF'' ''bitcoin'' Null, untitledMarket]\<rparr>
        ''Bitcoin price'' = Inl TypeError"
    by blast
  moreover from h1 have "list_all hasText blankMarkets"
    by (simp only: list_all_iff)
  moreover from h3 have "list_ex (\<lambda>m. \<not> hasText m) [exampleMarket ''Bitcoin ETF'' ''bitcoin'' Null, untitledMarket]"
    by (simp only: list_ex_iff)
  ultimately show ?thesis by (intro conjI)
qed

text \<open>
  C3 as first stated fails: a market without title makes the scorer throw, where the empty
  string in its place would score 0; a \<^verbatim>\<open>null\<close> description throws as well.
\<close>

theorem missing_title_counterexample:
  "findRelevantMarkets \<lparr>markets = Some [untitledMarket]\<rparr> ''Bitcoin price'' = Inl TypeError
   \<and> scoreMarket (toLowerCase ''Bitcoin price'') untitledMarket = Inl TypeError
   \<and> scoreMarket (toLowerCase ''Bitcoin price'') (untitledMarket\<lparr>title := Val ''''\<rparr>) = Inr 0
   \<and> scoreMarket (toLowerCase ''Bitcoin price'')
        (untitledMarket\<lparr>title := Val ''Bitcoin'', description := Null\<rparr>) = Inl TypeError"
  by code_simp

section \<open>C4: the volume fallback\<close>




section \<open>C10: the volume bonus does not depend on the query\<close>



section \<open>C7: the three answers of the key proxy\<close>

text \<open>
  C7. The handler answers in exactly one of three ways, decided by the request method and
  the environment alone: 405 with an error body for every method other than GET; 500 with
  an error body for a GET when the secret is not configured; 200 with the configured
  secret as \<open>apiKey\<close> for a GET otherwise.
\<close>

theorem handler_three_ways:
  "(method_req req \<noteq> ''GET'' \<longrightarrow>
      handler req env = \<lparr>status = 405, json = ErrorBody ''Method not allowed''\<rparr>)
   \<and> (method_req req = ''GET'' \<and> \<not> configured env \<longrightarrow>
      handler req env = \<lparr>status = 500, json = ErrorBody ''API key not configured''\<rparr>)
   \<and> (method_req req = ''GET'' \<and> configured env \<longrightarrow>
      (\<exists>k. OPENROUTER_API_KEY env = Some k \<and> k \<noteq> []
           \<and> handler req env = \<lparr>status = 200, json = ApiKeyBody k\<rparr>))
   \<and> (status (handler req env) = 405 \<or> status (handler req env) = 500
        \<or> status (handler req env) = 200)"
  by (auto simp: handler_def configured_def split: option.splits)

text \<open>
  Runs of C7: a POST, a GET without the variable, a GET with an empty variable and a GET
  with the secret set.
\<close>

theorem handler_three_ways_witness:
  "handler \<lparr>method_req = ''POST''\<rparr> \<lparr>OPENROUTER_API_KEY = Some ''sk-or-123''\<rparr>
      = \<lparr>status = 405, json = ErrorBody ''Method not allowed''\<rparr>
   \<and> handler \<lparr>method_req = ''GET''\<rparr> \<lparr>OPENROUTER_API_KEY = None\<rparr>
      = \<lparr>status = 500, json = ErrorBody ''API key not configured''\<rparr>
   \<and> handler \<lparr>method_req = ''GET''\<rparr> \<lparr>OPENROUTER_API_KEY = Some ''''\<rparr>
      = \<lparr>status = 500, json = ErrorBody ''API key not configured''\<rparr>
   \<and> handler \<lparr>method_req = ''GET''\<rparr> \<lparr>OPENROUTER_API_KEY = Some ''sk-or-123''\<rparr>
      = \<lparr>status = 200, json = ApiKeyBody ''sk-or-123''\<rparr>"
proof -
  have h1: "method_req \<lparr>method_req = ''POST''\<rparr> \<noteq> ''GET''" by simp
  have h2: "method_req \<lparr>method_req = ''GET''\<rparr> = ''GET'' \<and> \<not> configured \<lparr>OPENROUTER_API_KEY = None\<rparr>"
    by (simp add: configured_def)
  have h3: "method_req \<lparr>method_req = ''GET''\<rparr> = ''GET'' \<and> \<not> configured \<lparr>OPENROUTER_API_KEY = Some ''''\<rparr>"
    by (simp add: configured_def)
  have h4: "method_req \<lparr>method_req = ''GET''\<rparr> = ''GET'' \<and> configured \<lparr>OPENROUTER_API_KEY = Some ''sk-or-123''\<rparr>"
    by (simp add: configured_def)
  from handler_three_ways[of "\<lparr>method_req = ''POST''\<rparr>" "\<lparr>OPENROUTER_API_KEY = Some ''sk-or-123''\<rparr>"] h1
  have c1: "handler \<lparr>method_req = ''POST''\<rparr> \<lparr>OPENROUTER_API_KEY = Some ''sk-or-123''\<rparr>
      = \<lparr>status = 405, json = ErrorBody ''Method not allowed''\<rparr>"
    by blast
  from handler_three_ways[of "\<lparr>method_req = ''GET''\<rparr>" "\<lparr>OPENROUTER_API_KEY = None\<rparr>"] h2
  have c2: "handler \<lparr>method_req = ''GET''\<rparr> \<lparr>OPENROUTER_API_KEY = None\<rparr>
      = \<lparr>status = 500, json = ErrorBody ''API key not configured''\<rparr>"
    by blast
  from handler_three_ways[of "\<lparr>method_req = ''GET''\<rparr>" "\<lparr>OPENROUTER_API_KEY = Some ''''\<rparr>"] h3
  have c3: "handler \<lparr>method_req = ''GET''\<rparr> \<lparr>OPENROUTER_API_KEY = Some ''''\<rparr>
      = \<lparr>status = 500, json = ErrorBody ''API key not configured''\<rparr>"
    by blast
  from handler_three_ways[of "\<lparr>method_req = ''GET''\<rparr>" "\<lparr>OPENROUTER_API_KEY = Some ''sk-or-123''\<rparr>"] h4
  have c4: "handler \<lparr>method_req = ''GET''\<rparr> \<lparr>OPENROUTER_API_KEY = Some ''sk-or-123''\<rparr>
      = \<lparr>status = 200, json = ApiKeyBody ''sk-or-123''\<rparr>"
    by simp
  from c1 c2 c3 c4 show ?thesis by (intro conjI)
qed

section \<open>C8 and C9: a failed model call, and submissions while a call is in flight\<close>

lemma sendMessage_accepted:
  assumes "\<not> isLoading st" and "trim (messageInput st) \<noteq> []" and "polymarketData st \<noteq> None"
  shows "sendMessage st =
     st\<lparr>messageInput := [],
        chatHistory := chatHistory st @ [\<lparr>sender = ''user'', content = Val (trim (messageInput st))\<rparr>],
        isLoading := True,
        inFlight := inFlight st @ [SendRequest (trim (messageInput st))]\<rparr>"
  using assms by (auto simp: sendMessage_def addMessage_def Let_def)

lemma sendMessage_rejected_while_loading: "isLoading st \<Longrightarrow> sendMessage st = st"
  by (simp add: sendMessage_def)









lemma analyzeSpecificMarket_found:
  assumes "polymarketData st = Some pd" and "markets pd = Some ms"
    and "findMarket ms marketId = Some market"
  shows "analyzeSpecificMarket marketId marketTitle st =
     st\<lparr>chatHistory := chatHistory st @
            [\<lparr>sender = ''user'', content = Val (''Tell me more about: '' @ marketTitle)\<rparr>],
        inFlight := inFlight st @ [DetailRequest market]\<rparr>"
  using assms by (simp add: analyzeSpecificMarket_def addMessage_def Let_def)

text \<open>The drill-down does the same whatever the busy flag says, and leaves the flag as it is.\<close>

lemma analyzeSpecificMarket_ignores_isLoading:
  "analyzeSpecificMarket marketId marketTitle (st\<lparr>isLoading := b\<rparr>) =
     (analyzeSpecificMarket marketId marketTitle st)\<lparr>isLoading := b\<rparr>"
  by (simp add: analyzeSpecificMarket_def addMessage_def Let_def split: option.splits)

text \<open>
  C9 at a concrete state. While the call of a send is in flight and the busy flag is set,
  another \<open>sendMessage\<close> changes nothing, as claimed. \<open>analyzeSpecificMarket\<close> however
  never reads the flag: called in the same state it appends a user turn and starts a
  second call, so that two calls are in flight.
\<close>

theorem drilldown_ignores_busy_flag:
  "isLoading busyState
   \<and> inFlight busyState = [SendRequest ''Who wins the NBA finals?'']
   \<and> sendMessage (busyState\<lparr>messageInput := ''again''\<rparr>) = busyState\<lparr>messageInput := ''again''\<rparr>
   \<and> analyzeSpecificMarket ''NBA finals'' ''NBA finals'' busyState =
       busyState\<lparr>chatHistory := chatHistory busyState @
                     [\<lparr>sender = ''user'', content = Val ''Tell me more about: NBA finals''\<rparr>],
                 inFlight := [SendRequest ''Who wins the NBA finals?'',
                              DetailRequest (exampleMarket ''NBA finals'' '''' (Val 2000000))]\<rparr>
   \<and> length (chatHistory (analyzeSpecificMarket ''NBA finals'' ''NBA finals'' busyState)) =
       Suc (length (chatHistory busyState))
   \<and> length (inFlight (analyzeSpecificMarket ''NBA finals'' ''NBA finals'' busyState)) = 2"
proof -
  have tr: "trim (messageInput idleState) = ''Who wins the NBA finals?''"
    by code_simp
  have b: "busyState =
     idleState\<lparr>messageInput := [],
        chatHistory := chatHistory idleState @ [\<lparr>sender = ''user'', content = Val ''Who wins the NBA finals?''\<rparr>],
        isLoading := True,
        inFlight := inFlight idleState @ [SendRequest ''Who wins the NBA finals?'']\<rparr>"
    unfolding busyState_def
    by (subst sendMessage_accepted) (simp_all add: tr, simp_all add: idleState_def)
  have c1: "isLoading busyState"
    by (simp add: b)
  have c2: "inFlight busyState = [SendRequest ''Who wins the NBA finals?'']"
    by (simp add: b) (simp add: idleState_def)
  have c3: "sendMessage (busyState\<lparr>messageInput := ''again''\<rparr>) = busyState\<lparr>messageInput := ''again''\<rparr>"
    by (rule sendMessage_rejected_while_loading) (simp add: c1)
  have p: "polymarketData busyState = Some \<lparr>markets = Some [exampleMarket ''NBA finals'' '''' (Val 2000000)]\<rparr>"
    by (simp add: b) (simp add: idleState_def)
  have f: "findMarket [exampleMarket ''NBA finals'' '''' (Val 2000000)] ''NBA finals''
            = Some (exampleMarket ''NBA finals'' '''' (Val 2000000))"
    by (simp add: findMarket_def exampleMarket_def)
  have c4: "analyzeSpecificMarket ''NBA finals'' ''NBA finals'' busyState =
       busyState\<lparr>chatHistory := chatHistory busyState @
                     [\<lparr>sender = ''user'', content = Val ''Tell me more about: NBA finals''\<rparr>],
                 inFlight := [SendRequest ''Who wins the NBA finals?'',
                              DetailRequest (exampleMarket ''NBA finals'' '''' (Val 2000000))]\<rparr>"
    by (subst analyzeSpecificMarket_found[OF p _ f]) (simp_all add: c2)
  have c5: "length (chatHistory (analyzeSpecificMarket ''NBA finals'' ''NBA finals'' busyState)) =
       Suc (length (chatHistory busyState))"
    by (simp add: c4)
  have c6: "length (inFlight (analyzeSpecificMarket ''NBA finals'' ''NBA finals'' busyState)) = 2"
    by (simp add: c4)
  from c1 c2 c3 c4 c5 c6 show ?thesis by (intro conjI)
qed

section \<open>Lemmas about doubles\<close>

lemma lit06: "toDouble (6 / 10) = 5404319552844595 / 2 ^ 53"
  by code_simp

lemma lit04: "toDouble (4 / 10) = 7205759403792794 / 2 ^ 54"
  by code_simp

lemma lit065: "toDouble (65 / 100) = 5854679515581645 / 2 ^ 53"
  by code_simp

lemma lit035: "toDouble (35 / 100) = 6305039478318694 / 2 ^ 54"
  by code_simp

lemma lit05: "toDouble (1 / 2) = 1 / 2"
  by code_simp

lemma bitlen_1: "bitlen 1 = 1"
  by code_simp

lemma bitlen_2: "bitlen 2 = 2"
  by code_simp

lemma toDouble_pos:
  assumes "0 < x"
  shows "toDouble x =
    of_int (roundHalfEven (x / 2 powi (max (ilog2 x) (- 1022) - 52))) * 2 powi (max (ilog2 x) (- 1022) - 52)"
  using assms by (simp add: toDouble_def Let_def)

lemma ilog2_half:
  assumes "1 / 2 \<le> x" "x < 1"
  shows "ilog2 x = - 1"
proof -
  have "1 < 1 / x" "1 / x \<le> 2"
    using assms by (simp_all add: field_simps)
  then have "\<lceil>1 / x\<rceil> = 2"
    by (simp add: ceiling_eq_iff)
  with assms show ?thesis
    by (simp add: ilog2_def bitlen_1)
qed

lemma ilog2_third:
  assumes "1 / 3 \<le> x" "x < 1 / 2"
  shows "ilog2 x = - 2"
proof -
  have "2 < 1 / x" "1 / x \<le> 3"
    using assms by (simp_all add: field_simps)
  then have "\<lceil>1 / x\<rceil> = 3"
    by (simp add: ceiling_eq_iff)
  with assms show ?thesis
    by (simp add: ilog2_def bitlen_2)
qed

text \<open>Between 1/2 and 1 the doubles are multiples of \<open>2\<^sup>-\<^sup>5\<^sup>3\<close>, below 1/2 of \<open>2\<^sup>-\<^sup>5\<^sup>4\<close>.\<close>

lemma double_in_half:
  assumes "isDouble x" "1 / 2 \<le> x" "x < 1"
  shows "\<exists>n::int. x = of_int n / 2 ^ 53"
proof -
  have pos: "0 < x" using assms by simp
  have "toDouble x = of_int (roundHalfEven (x / 2 powi (- 53))) * 2 powi (- 53)"
    unfolding toDouble_pos[OF pos] ilog2_half[OF assms(2,3)] by simp
  with assms(1) have "x = of_int (roundHalfEven (x / 2 powi (- 53))) / 2 ^ 53"
    by (simp add: isDouble_def power_int_minus field_simps)
  then show ?thesis by blast
qed

lemma double_in_third:
  assumes "isDouble x" "1 / 3 \<le> x" "x < 1 / 2"
  shows "\<exists>n::int. x = of_int n / 2 ^ 54"
proof -
  have pos: "0 < x" using assms by simp
  have "toDouble x = of_int (roundHalfEven (x / 2 powi (- 54))) * 2 powi (- 54)"
    unfolding toDouble_pos[OF pos] ilog2_third[OF assms(2,3)] by simp
  with assms(1) have "x = of_int (roundHalfEven (x / 2 powi (- 54))) / 2 ^ 54"
    by (simp add: isDouble_def power_int_minus field_simps)
  then show ?thesis by blast
qed

text \<open>No double lies between the literal 0.6 and the number 0.6, nor between 0.4 and its literal.\<close>

lemma above_lit06:
  assumes d: "isDouble p" and g: "toDouble (6 / 10) < p"
  shows "6 / 10 < p"
proof (rule ccontr)
  assume "\<not> 6 / 10 < p"
  then have le: "p \<le> 6 / 10" by simp
  from g have lo: "5404319552844595 / 2 ^ 53 < p"
    by (simp only: lit06)
  then have "1 / 2 \<le> p" by simp
  moreover from le have "p < 1" by simp
  ultimately obtain n :: int where n: "p = of_int n / 2 ^ 53"
    using double_in_half[OF d] by blast
  from lo n have "(5404319552844595::rat) < of_int n"
    by (simp add: field_simps)
  then have "5404319552844595 < n" by linarith
  then have "5404319552844596 \<le> n" by simp
  then have "(5404319552844596::rat) \<le> of_int n" by linarith
  then have "5404319552844596 / 2 ^ 53 \<le> p"
    by (simp add: n field_simps)
  with le show False by simp
qed

lemma below_lit04:
  assumes d: "isDouble p" and g: "p < toDouble (4 / 10)"
  shows "p < 4 / 10"
proof (rule ccontr)
  assume "\<not> p < 4 / 10"
  then have ge: "4 / 10 \<le> p" by simp
  from g have hi: "p < 7205759403792794 / 2 ^ 54"
    by (simp only: lit04)
  then have "p < 1 / 2" by simp
  moreover from ge have "1 / 3 \<le> p" by simp
  ultimately obtain n :: int where n: "p = of_int n / 2 ^ 54"
    using double_in_third[OF d] by blast
  from hi n have "of_int n < (7205759403792794::rat)"
    by (simp add: field_simps)
  then have "n < 7205759403792794" by linarith
  then have "n \<le> 7205759403792793" by simp
  then have "of_int n \<le> (7205759403792793::rat)" by linarith
  then have "p \<le> 7205759403792793 / 2 ^ 54"
    by (simp add: n field_simps)
  with ge show False by simp
qed

section \<open>C6: the class of an outcome\<close>

text \<open>
  C6. For an outcome whose price is a double, the class is \<open>favored\<close> exactly when the
  price is above 0.6, \<open>underdog\<close> exactly when it is below 0.4, and \<open>neutral\<close> exactly in
  between, the bounds included; the comparison with the rounded literals decides the same
  as the comparison with the decimal numbers. The prices 0.65, 0.35 and 0.5
  give \<open>favored\<close>, \<open>underdog\<close> and \<open>neutral\<close>. An outcome without a price is
  \<open>neutral\<close>, since \<^verbatim>\<open>undefined\<close> compares false both ways; a \<^verbatim>\<open>null\<close> price compares as 0
  and is an \<open>underdog\<close>.
\<close>

theorem outcome_classification:
  assumes pr: "price oc = Val p" and d: "isDouble p"
  shows "(outcomeClass oc = ''favored'') = (6 / 10 < p)
     \<and> (outcomeClass oc = ''underdog'') = (p < 4 / 10)
     \<and> (outcomeClass oc = ''neutral'') = (4 / 10 \<le> p \<and> p \<le> 6 / 10)
     \<and> outcomeClass \<lparr>name = nm, price = Val (toDouble (65 / 100))\<rparr> = ''favored''
     \<and> outcomeClass \<lparr>name = nm, price = Val (toDouble (35 / 100))\<rparr> = ''underdog''
     \<and> outcomeClass \<lparr>name = nm, price = Val (toDouble (1 / 2))\<rparr> = ''neutral''
     \<and> outcomeClass \<lparr>name = nm, price = Undefined\<rparr> = ''neutral''
     \<and> outcomeClass \<lparr>name = nm, price = Null\<rparr> = ''underdog''"
proof -
  have up: "(toDouble (6 / 10) < p) = (6 / 10 < p)"
  proof
    assume "toDouble (6 / 10) < p"
    then show "6 / 10 < p" by (rule above_lit06[OF d])
  next
    assume "6 / 10 < p"
    then show "toDouble (6 / 10) < p" unfolding lit06 by simp
  qed
  have dn: "(p < toDouble (4 / 10)) = (p < 4 / 10)"
  proof
    assume "p < toDouble (4 / 10)"
    then show "p < 4 / 10" by (rule below_lit04[OF d])
  next
    assume "p < 4 / 10"
    then show "p < toDouble (4 / 10)" unfolding lit04 by simp
  qed
  have c1: "(outcomeClass oc = ''favored'') = (6 / 10 < p)"
    unfolding outcomeClass_def pr gt.simps lt.simps up dn by simp
  have c2: "(outcomeClass oc = ''underdog'') = (p < 4 / 10)"
    unfolding outcomeClass_def pr gt.simps lt.simps up dn by auto
  have c3: "(outcomeClass oc = ''neutral'') = (4 / 10 \<le> p \<and> p \<le> 6 / 10)"
    unfolding outcomeClass_def pr gt.simps lt.simps up dn by auto
  have c4: "outcomeClass \<lparr>name = nm, price = Val (toDouble (65 / 100))\<rparr> = ''favored''"
    unfolding outcomeClass_def lit06 lit065 by simp
  have c5: "outcomeClass \<lparr>name = nm, price = Val (toDouble (35 / 100))\<rparr> = ''underdog''"
    unfolding outcomeClass_def lit06 lit04 lit035 by simp
  have c6: "outcomeClass \<lparr>name = nm, price = Val (toDouble (1 / 2))\<rparr> = ''neutral''"
    unfolding outcomeClass_def lit06 lit04 lit05 by simp
  have c7: "outcomeClass \<lparr>name = nm, price = Undefined\<rparr> = ''neutral''"
    by (simp add: outcomeClass_def)
  have c8: "outcomeClass \<lparr>name = nm, price = Null\<rparr> = ''underdog''"
    unfolding outcomeClass_def lit06 lit04 by simp
  from c1 c2 c3 c4 c5 c6 c7 c8 show ?thesis by (intro conjI)
qed

text \<open>A run of C6 on the price 0.65, with the other two prices of the claim.\<close>

theorem outcome_classification_witness:
  "price \<lparr>name = Val ''Yes'', price = Val (toDouble (65 / 100))\<rparr> = Val (toDouble (65 / 100))
   \<and> isDouble (toDouble (65 / 100))
   \<and> 6 / 10 < toDouble (65 / 100)
   \<and> outcomeClass \<lparr>name = Val ''Yes'', price = Val (toDouble (65 / 100))\<rparr> = ''favored''
   \<and> outcomeClass \<lparr>name = Val ''No'', price = Val (toDouble (35 / 100))\<rparr> = ''underdog''
   \<and> outcomeClass \<lparr>name = Val ''No'', price = Val (toDouble (1 / 2))\<rparr> = ''neutral''"
proof -
  let ?oc = "\<lparr>name = Val ''Yes'', price = Val (toDouble (65 / 100))\<rparr>"
  have h1: "price ?oc = Val (toDouble (65 / 100))" by simp
  have h2: "isDouble (toDouble (65 / 100))" by code_simp
  have h3: "6 / 10 < toDouble (65 / 100)" unfolding lit065 by simp
  note t = outcome_classification[OF h1 h2, of "Val ''No''"]
  from t h3 have c1: "outcomeClass ?oc = ''favored''"
    by blast
  from t have c2: "outcomeClass \<lparr>name = Val ''No'', price = Val (toDouble (35 / 100))\<rparr> = ''underdog''"
    by (elim conjE)
  from t have c3: "outcomeClass \<lparr>name = Val ''No'', price = Val (toDouble (1 / 2))\<rparr> = ''neutral''"
    by (elim conjE)
  from h1 h2 h3 c1 c2 c3 show ?thesis by (intro conjI)
qed

section \<open>Lemmas about toFixed\<close>

lemma digits_small: "n < 10 \<Longrightarrow> digits n = [digitChar n]"
  by (subst digits.simps) simp

lemma digits_large: "\<not> n < 10 \<Longrightarrow> digits n = digits (n div 10) @ [digitChar (n mod 10)]"
  by (subst digits.simps) simp

lemma digits_zero: "digits 0 = ''0''"
  by (simp add: digits_small digitChar_def)

lemma digits_nonempty: "0 < length (digits n)"
  by (subst digits.simps) simp

lemma toFixed_one:
  assumes "0 \<le> x" and "x < 10 ^ 21"
  shows "toFixed 1 x = oneDecimal x"
proof -
  let ?n = "\<lfloor>x * 10 + 1 / 2\<rfloor>"
  have nn: "0 \<le> ?n" using assms by simp
  show ?thesis
  proof (cases "?n < 10")
    case True
    with nn have m: "digits ?n = [digitChar ?n]" "?n div 10 = 0" "?n mod 10 = ?n"
      by (simp_all add: digits_small)
    show ?thesis
      using assms by (simp add: toFixed_def oneDecimal_def Let_def m digits_zero)
  next
    case False
    then have m: "digits ?n = digits (?n div 10) @ [digitChar (?n mod 10)]"
      by (rule digits_large)
    have d: "digits (?n mod 10) = [digitChar (?n mod 10)]"
      by (rule digits_small) simp
    show ?thesis
      using assms digits_nonempty[of "?n div 10"]
      by (simp add: toFixed_def oneDecimal_def Let_def m d)
  qed
qed

lemma toFixed_zero:
  assumes "0 \<le> x" and "x < 10 ^ 21"
  shows "toFixed 0 x = noDecimals x"
  using assms by (simp add: toFixed_def noDecimals_def Let_def)

lemma toFixed_zero_neg:
  assumes "x < 0" and "- (10 ^ 21) < x"
  shows "toFixed 0 x = ''-'' @ noDecimals (- x)"
  using assms by (simp add: toFixed_def noDecimals_def Let_def)

lemma roundHalfEven_bounds: "\<lfloor>y\<rfloor> \<le> roundHalfEven y \<and> roundHalfEven y \<le> \<lfloor>y\<rfloor> + 1"
  by (simp add: roundHalfEven_def Let_def)

lemma ilog2_ge1:
  assumes "1 \<le> x"
  shows "0 \<le> ilog2 x \<and> 2 powi (ilog2 x) \<le> x"
proof -
  have f: "0 < \<lfloor>x\<rfloor>" using assms by simp
  from bitlen_bounds[OF f] have b: "2 ^ nat (bitlen \<lfloor>x\<rfloor> - 1) \<le> \<lfloor>x\<rfloor>" by blast
  have "1 \<le> bitlen \<lfloor>x\<rfloor>"
    using f by (simp add: bitlen_alt_def)
  then have nn: "0 \<le> bitlen \<lfloor>x\<rfloor> - 1" by simp
  have "(2::rat) powi (bitlen \<lfloor>x\<rfloor> - 1) = 2 ^ nat (bitlen \<lfloor>x\<rfloor> - 1)"
    using nn by (simp add: power_int_def)
  also have "\<dots> = of_int (2 ^ nat (bitlen \<lfloor>x\<rfloor> - 1))"
    by simp
  also have "\<dots> \<le> of_int \<lfloor>x\<rfloor>"
    using b by (simp only: of_int_le_iff)
  also have "\<dots> \<le> x"
    by simp
  finally show ?thesis
    using assms nn by (simp add: ilog2_def)
qed

text \<open>Rounding a number of at least 1 gives a number that is not negative and at most twice as large.\<close>

lemma toDouble_bounds:
  assumes "1 \<le> x"
  shows "0 \<le> toDouble x \<and> toDouble x \<le> 2 * x"
proof -
  let ?e = "max (ilog2 x) (- 1022)"
  let ?u = "(2::rat) powi (?e - 52)"
  have pos: "0 < x" using assms by simp
  have u: "0 < ?u" by simp
  from ilog2_ge1[OF assms] have e: "?e = ilog2 x" and le: "2 powi (ilog2 x) \<le> x"
    by simp_all
  have "?u \<le> 2 powi (ilog2 x)"
    unfolding e by (rule power_int_increasing) simp_all
  with le have ux: "?u \<le> x" by simp
  have y: "0 \<le> x / ?u" using pos u by simp
  from roundHalfEven_bounds[of "x / ?u"]
  have lo: "\<lfloor>x / ?u\<rfloor> \<le> roundHalfEven (x / ?u)" and hi: "roundHalfEven (x / ?u) \<le> \<lfloor>x / ?u\<rfloor> + 1"
    by simp_all
  have "0 \<le> \<lfloor>x / ?u\<rfloor>" using y by simp
  with lo have "0 \<le> roundHalfEven (x / ?u)" by linarith
  then have c1: "0 \<le> toDouble x"
    unfolding toDouble_pos[OF pos] using u by simp
  have "of_int (roundHalfEven (x / ?u)) \<le> (of_int (\<lfloor>x / ?u\<rfloor> + 1) :: rat)"
    using hi by (simp only: of_int_le_iff)
  also have "\<dots> \<le> x / ?u + 1"
    by simp
  finally have "of_int (roundHalfEven (x / ?u)) * ?u \<le> (x / ?u + 1) * ?u"
    using u by (simp only: mult_le_cancel_right_pos)
  also have "\<dots> = x + ?u"
    using u by (simp add: field_simps)
  also have "\<dots> \<le> 2 * x"
    using ux by simp
  finally have c2: "toDouble x \<le> 2 * x"
    unfolding toDouble_pos[OF pos] .
  from c1 c2 show ?thesis by blast
qed

lemma fdiv_bounds: "1 \<le> a / b \<Longrightarrow> 0 \<le> fdiv a b \<and> fdiv a b \<le> 2 * (a / b)"
  unfolding fdiv_def by (rule toDouble_bounds)

text \<open>
  The digits printed for a number denote it, and the numeral with one digit after the
  point differs from the number it stands for by at most a twentieth.
\<close>

lemma digitValue_digitChar:
  assumes "0 \<le> d" "d < 10"
  shows "digitValue (digitChar d) = d"
proof -
  from assms have "d = 0 \<or> d = 1 \<or> d = 2 \<or> d = 3 \<or> d = 4 \<or> d = 5 \<or> d = 6 \<or> d = 7 \<or> d = 8 \<or> d = 9"
    by arith
  then show ?thesis
    by (elim disjE) (simp_all add: digitChar_def digitValue_def)
qed

lemma decimalValue_snoc: "decimalValue (ds @ [c]) = 10 * decimalValue ds + digitValue c"
  by (simp add: decimalValue_def)

lemma decimalValue_digits: "0 \<le> n \<Longrightarrow> decimalValue (digits n) = n"
proof (induction n rule: digits.induct)
  case (1 n)
  show ?case
  proof (cases "n < 10")
    case True
    with "1.prems" show ?thesis
      by (simp add: digits_small decimalValue_def digitValue_digitChar)
  next
    case False
    with "1.prems" have ih: "decimalValue (digits (n div 10)) = n div 10"
      using "1.IH" by simp
    have "digitValue (digitChar (n mod 10)) = n mod 10"
      by (rule digitValue_digitChar) simp_all
    with False ih show ?thesis
      by (simp add: digits_large decimalValue_snoc)
  qed
qed

lemma nearest_tenth:
  fixes x :: rat
  shows "\<bar>of_int \<lfloor>x * 10 + 1 / 2\<rfloor> / 10 - x\<bar> \<le> 1 / 20"
proof -
  define n where "n = \<lfloor>x * 10 + 1 / 2\<rfloor>"
  have "of_int n \<le> x * 10 + 1 / 2" "x * 10 + 1 / 2 < of_int n + 1"
    unfolding n_def using floor_correct[of "x * 10 + 1 / 2"] by simp_all
  then have "\<bar>of_int n / 10 - x\<bar> \<le> 1 / 20"
    by linarith
  then show ?thesis
    unfolding n_def .
qed

lemma oneDecimal_value:
  assumes "0 \<le> x"
  shows "\<exists>a b. oneDecimal x = a @ ''.'' @ [b]
      \<and> \<bar>(of_int (decimalValue a) + of_int (digitValue b) / 10) - x\<bar> \<le> 1 / 20"
proof -
  define n where "n = \<lfloor>x * 10 + 1 / 2\<rfloor>"
  have nn: "0 \<le> n" unfolding n_def using assms by simp
  then have nd: "0 \<le> n div 10"
    by (simp add: pos_imp_zdiv_nonneg_iff)
  have d: "digits (n mod 10) = [digitChar (n mod 10)]"
    by (rule digits_small) simp
  have o: "oneDecimal x = digits (n div 10) @ ''.'' @ [digitChar (n mod 10)]"
    unfolding oneDecimal_def Let_def n_def[symmetric] d by simp
  have a: "decimalValue (digits (n div 10)) = n div 10"
    by (rule decimalValue_digits[OF nd])
  have b: "digitValue (digitChar (n mod 10)) = n mod 10"
    by (rule digitValue_digitChar) simp_all
  have "(of_int (10 * (n div 10) + n mod 10) :: rat) = of_int n"
    by (simp only: mult_div_mod_eq)
  then have "10 * (of_int (n div 10) :: rat) + of_int (n mod 10) = of_int n"
    by (simp only: of_int_add of_int_mult of_int_numeral)
  then have s: "(of_int (n div 10) + of_int (n mod 10) / 10 :: rat) = of_int n / 10"
    by linarith
  have "\<bar>of_int n / 10 - x\<bar> \<le> 1 / 20"
    unfolding n_def by (rule nearest_tenth)
  then have "\<bar>(of_int (decimalValue (digits (n div 10))) + of_int (digitValue (digitChar (n mod 10))) / 10) - x\<bar> \<le> 1 / 20"
    unfolding a b s .
  with o show ?thesis by blast
qed

lemma noDecimals_value:
  assumes "0 \<le> x"
  shows "\<bar>of_int (decimalValue (noDecimals x)) - x\<bar> \<le> 1 / 2"
proof -
  define n where "n = \<lfloor>x + 1 / 2\<rfloor>"
  have nn: "0 \<le> n" unfolding n_def using assms by simp
  have "of_int n \<le> x + 1 / 2" "x + 1 / 2 < of_int n + 1"
    unfolding n_def using floor_correct[of "x + 1 / 2"] by simp_all
  then have "\<bar>of_int n - x\<bar> \<le> 1 / 2"
    by linarith
  then show ?thesis
    unfolding noDecimals_def n_def[symmetric] decimalValue_digits[OF nn] .
qed

section \<open>C5: the volume format\<close>

text \<open>
  C5, as amended. A missing volume and 0 give \<open>$0\<close>. A volume above 1,000,000 gives
  \<open>$\<close>, the quotient by 1,000,000 with one digit after the point, and \<open>M\<close>, as long as
  the quotient is below \<open>10\<^sup>2\<^sup>1\<close>; from there on the quotient is printed in exponent
  notation. A volume above 1,000 and up to 1,000,000 gives \<open>$\<close>, the quotient by 1,000
  with one digit after the point, and \<open>K\<close>. A positive volume up to 1,000 gives \<open>$\<close>
  and the nearest whole number, and a negative volume above \<open>-10\<^sup>2\<^sup>1\<close> gives \<open>$-\<close> and the
  nearest whole number of its absolute value. In particular 250 gives \<open>$250\<close>, 2500 gives
  \<open>$2.5K\<close> and 3,400,000 gives \<open>$3.4M\<close>. The numeral with one digit after the point
  is within a twentieth of the quotient it stands for, and the whole number within a half
  of the volume.
\<close>

theorem formatVolume_cases:
  "formatVolume Undefined = ''$0'' \<and> formatVolume Null = ''$0'' \<and> formatVolume (Val 0) = ''$0''
   \<and> (1000000 < v \<and> fdiv v 1000000 < 10 ^ 21 \<longrightarrow>
        formatVolume (Val v) = ''$'' @ oneDecimal (fdiv v 1000000) @ ''M'')
   \<and> (1000000 < v \<and> 10 ^ 21 \<le> fdiv v 1000000 \<longrightarrow>
        formatVolume (Val v) = ''$'' @ toStringLarge (fdiv v 1000000) @ ''M'')
   \<and> (1000 < v \<and> v \<le> 1000000 \<longrightarrow>
        formatVolume (Val v) = ''$'' @ oneDecimal (fdiv v 1000) @ ''K'')
   \<and> (0 < v \<and> v \<le> 1000 \<longrightarrow> formatVolume (Val v) = ''$'' @ noDecimals v)
   \<and> (v < 0 \<and> - (10 ^ 21) < v \<longrightarrow> formatVolume (Val v) = ''$-'' @ noDecimals (- v))
   \<and> formatVolume (Val 250) = ''$250''
   \<and> formatVolume (Val 2500) = ''$2.5K''
   \<and> formatVolume (Val 3400000) = ''$3.4M''
   \<and> (0 \<le> x \<longrightarrow>
        (\<exists>a b. oneDecimal x = a @ ''.'' @ [b]
           \<and> \<bar>(of_int (decimalValue a) + of_int (digitValue b) / 10) - x\<bar> \<le> 1 / 20))
   \<and> (0 \<le> x \<longrightarrow>
        \<bar>of_int (decimalValue (noDecimals x)) - x\<bar> \<le> 1 / 2)"
proof -
  have c0: "formatVolume Undefined = ''$0''" "formatVolume Null = ''$0''" "formatVolume (Val 0) = ''$0''"
    by (simp_all add: formatVolume_def)
  have c1: "1000000 < v \<and> fdiv v 1000000 < 10 ^ 21 \<longrightarrow>
        formatVolume (Val v) = ''$'' @ oneDecimal (fdiv v 1000000) @ ''M''"
  proof
    assume a: "1000000 < v \<and> fdiv v 1000000 < 10 ^ 21"
    then have "1 \<le> v / 1000000" by simp
    from fdiv_bounds[OF this] have "0 \<le> fdiv v 1000000" by blast
    from toFixed_one[OF this] a have "toFixed 1 (fdiv v 1000000) = oneDecimal (fdiv v 1000000)"
      by blast
    with a show "formatVolume (Val v) = ''$'' @ oneDecimal (fdiv v 1000000) @ ''M''"
      by (simp add: formatVolume_def)
  qed
  have c2: "1000000 < v \<and> 10 ^ 21 \<le> fdiv v 1000000 \<longrightarrow>
        formatVolume (Val v) = ''$'' @ toStringLarge (fdiv v 1000000) @ ''M''"
  proof
    assume a: "1000000 < v \<and> 10 ^ 21 \<le> fdiv v 1000000"
    then have "toFixed 1 (fdiv v 1000000) = toStringLarge (fdiv v 1000000)"
      by (simp add: toFixed_def Let_def)
    with a show "formatVolume (Val v) = ''$'' @ toStringLarge (fdiv v 1000000) @ ''M''"
      by (simp add: formatVolume_def)
  qed
  have c3: "1000 < v \<and> v \<le> 1000000 \<longrightarrow>
        formatVolume (Val v) = ''$'' @ oneDecimal (fdiv v 1000) @ ''K''"
  proof
    assume a: "1000 < v \<and> v \<le> 1000000"
    then have "1 \<le> v / 1000" by simp
    from fdiv_bounds[OF this] have b: "0 \<le> fdiv v 1000" "fdiv v 1000 \<le> 2 * (v / 1000)"
      by blast+
    from b(2) a have "fdiv v 1000 < 10 ^ 21" by simp
    from toFixed_one[OF b(1) this] a
    show "formatVolume (Val v) = ''$'' @ oneDecimal (fdiv v 1000) @ ''K''"
      by (simp add: formatVolume_def)
  qed
  have c4: "0 < v \<and> v \<le> 1000 \<longrightarrow> formatVolume (Val v) = ''$'' @ noDecimals v"
  proof
    assume a: "0 < v \<and> v \<le> 1000"
    then have "0 \<le> v" "v < 10 ^ 21" by simp_all
    from toFixed_zero[OF this] a show "formatVolume (Val v) = ''$'' @ noDecimals v"
      by (simp add: formatVolume_def)
  qed
  have c5: "v < 0 \<and> - (10 ^ 21) < v \<longrightarrow> formatVolume (Val v) = ''$-'' @ noDecimals (- v)"
  proof
    assume a: "v < 0 \<and> - (10 ^ 21) < v"
    then have "v < 0" "- (10 ^ 21) < v" by simp_all
    from toFixed_zero_neg[OF this] a show "formatVolume (Val v) = ''$-'' @ noDecimals (- v)"
      by (simp add: formatVolume_def)
  qed
  have c6: "formatVolume (Val 250) = ''$250''"
    by code_simp
  have c7: "formatVolume (Val 2500) = ''$2.5K''"
    by code_simp
  have c8: "formatVolume (Val 3400000) = ''$3.4M''"
    by code_simp
  have c9: "0 \<le> x \<longrightarrow>
        (\<exists>a b. oneDecimal x = a @ ''.'' @ [b]
           \<and> \<bar>(of_int (decimalValue a) + of_int (digitValue b) / 10) - x\<bar> \<le> 1 / 20)"
    using oneDecimal_value by blast
  have c10: "0 \<le> x \<longrightarrow> \<bar>of_int (decimalValue (noDecimals x)) - x\<bar> \<le> 1 / 2"
    using noDecimals_value by blast
  from c0 c1 c2 c3 c4 c5 c6 c7 c8 c9 c10 show ?thesis by (intro conjI)
qed

text \<open>
  Runs of C5 in each range: 1,150,000, whose quotient 1.15 is a double just below 1.15
  and prints as 1.1; 999,950; 999.6; and -5.
\<close>

theorem formatVolume_cases_witness:
  "1000000 < (1150000::rat)
   \<and> fdiv 1150000 1000000 < 10 ^ 21
   \<and> oneDecimal (fdiv 1150000 1000000) = ''1.1''
   \<and> formatVolume (Val 1150000) = ''$1.1M''
   \<and> oneDecimal (fdiv 999950 1000) = ''1000.0''
   \<and> formatVolume (Val 999950) = ''$1000.0K''
   \<and> noDecimals (9996 / 10) = ''1000''
   \<and> formatVolume (Val (9996 / 10)) = ''$1000''
   \<and> formatVolume (Val (- 5)) = ''$-5''"
proof -
  have h1: "1000000 < (1150000::rat) \<and> fdiv 1150000 1000000 < 10 ^ 21"
    by code_simp
  have h2: "1000 < (999950::rat) \<and> (999950::rat) \<le> 1000000"
    by simp
  have h3: "0 < (9996 / 10 :: rat) \<and> (9996 / 10 :: rat) \<le> 1000"
    by simp
  have h4: "(- 5 :: rat) < 0 \<and> - (10 ^ 21) < (- 5 :: rat)"
    by simp
  have e1: "oneDecimal (fdiv 1150000 1000000) = ''1.1''"
    by code_simp
  have e2: "oneDecimal (fdiv 999950 1000) = ''1000.0''"
    by code_simp
  have e3: "noDecimals (9996 / 10) = ''1000''"
    by code_simp
  have e4: "noDecimals (- (- 5)) = ''5''"
    by code_simp
  from formatVolume_cases[of 1150000] h1
  have c1: "formatVolume (Val 1150000) = ''$'' @ oneDecimal (fdiv 1150000 1000000) @ ''M''"
    by blast
  from formatVolume_cases[of 999950] h2
  have c2: "formatVolume (Val 999950) = ''$'' @ oneDecimal (fdiv 999950 1000) @ ''K''"
    by blast
  from formatVolume_cases[of "9996 / 10"] h3
  have c3: "formatVolume (Val (9996 / 10)) = ''$'' @ noDecimals (9996 / 10)"
    by blast
  from formatVolume_cases[of "- 5"] h4
  have c4: "formatVolume (Val (- 5)) = ''$-'' @ noDecimals (- (- 5))"
    by blast
  have d1: "formatVolume (Val 1150000) = ''$1.1M''"
    unfolding c1 e1 by simp
  have d2: "formatVolume (Val 999950) = ''$1000.0K''"
    unfolding c2 e2 by simp
  have d3: "formatVolume (Val (9996 / 10)) = ''$1000''"
    unfolding c3 e3 by simp
  have d4: "formatVolume (Val (- 5)) = ''$-5''"
    unfolding c4 e4 by simp
  from h1 have g1: "1000000 < (1150000::rat)" and g2: "fdiv 1150000 1000000 < 10 ^ 21"
    by blast+
  from g1 g2 e1 d1 e2 d2 e3 d3 d4 show ?thesis
    by (intro conjI)
qed

text \<open>
  C5 as first stated fails on a very large volume: the literal \<^verbatim>\<open>1e27\<close> is above
  1,000,000, its quotient by 1,000,000 is the double \<open>10\<^sup>2\<^sup>1\<close>, and \<^verbatim>\<open>toFixed(1)\<close> prints
  that as \<^verbatim>\<open>1e+21\<close>, with no digit after a point.
\<close>

theorem formatVolume_exponent_counterexample:
  "toDouble (10 ^ 27) = 1000000000000000013287555072
   \<and> 1000000 < toDouble (10 ^ 27)
   \<and> fdiv (toDouble (10 ^ 27)) 1000000 = 10 ^ 21
   \<and> toFixed 1 (10 ^ 21) = ''1e+21''
   \<and> formatVolume (Val (toDouble (10 ^ 27))) = ''$1e+21M''"
  by code_simp

end
